theory Spec2Isabelle
  imports Main "HOL-Library.Multiset" "HOL-Library.AList"
begin

section \<open>Cards\<close>

text \<open>
  \<^verbatim>\<open>type Card struct { Suit string; Number int }\<close> (deck.go). Go's \<open>int\<close> is modelled
  by \<open>int\<close>: every card the engine deals has a number between 1 and 12 and a game holds
  40 cards, so no sum computed by the engine comes near the 64-bit range.
\<close>

record Card =
  Suit :: string
  Number :: int

definition ORO :: string where "ORO = ''oro''"
definition COPA :: string where "COPA = ''copa''"
definition ESPADA :: string where "ESPADA = ''espada''"
definition BASTO :: string where "BASTO = ''basto''"

definition mkCard :: "string \<Rightarrow> int \<Rightarrow> Card" where
  "mkCard s n = \<lparr>Suit = s, Number = n\<rparr>"

text \<open>\<open>GetEscobaValue\<close>: 1 to 7 count as themselves, 10, 11 and 12 as 8, 9 and 10.\<close>

definition GetEscobaValue :: "Card \<Rightarrow> int" where
  "GetEscobaValue c = (if Number c \<le> 7 then Number c else Number c - 2)"

text \<open>\<open>sumCards\<close>: the loop \<open>sum += card.GetEscobaValue()\<close>.\<close>

fun sumCards_from :: "int \<Rightarrow> Card list \<Rightarrow> int" where
  "sumCards_from s [] = s"
| "sumCards_from s (c # cards) = sumCards_from (s + GetEscobaValue c) cards"

definition sumCards :: "Card list \<Rightarrow> int" where
  "sumCards cards = sumCards_from 0 cards"

section \<open>Combination search\<close>

text \<open>
  \<open>findCombinationsDFS\<close> (actions.go). The Go function appends to \<open>*allCombinations\<close>;
  the model passes the accumulated list in and returns it. \<open>dfs_loop\<close> is the
  \<open>for i := startIndex; i < len(tableCards); i++\<close> loop of the body, at index \<open>i\<close>.
\<close>

function findCombinationsDFS :: "Card list \<Rightarrow> int \<Rightarrow> Card list \<Rightarrow> nat \<Rightarrow> Card list list \<Rightarrow> Card list list"
  and dfs_loop :: "Card list \<Rightarrow> int \<Rightarrow> Card list \<Rightarrow> nat \<Rightarrow> Card list list \<Rightarrow> Card list list"
where
  "findCombinationsDFS tableCards targetSum currentCombination startIndex allCombinations =
     (if targetSum = 0 then allCombinations @ [currentCombination]
      else if targetSum < 0 \<or> startIndex \<ge> length tableCards then allCombinations
      else dfs_loop tableCards targetSum currentCombination startIndex allCombinations)"
| "dfs_loop tableCards targetSum currentCombination i allCombinations =
     (if i < length tableCards then
        (let c = tableCards ! i;
             cardValue = GetEscobaValue c;
             newCombination = currentCombination @ [c]
         in dfs_loop tableCards targetSum currentCombination (i + 1)
              (findCombinationsDFS tableCards (targetSum - cardValue) newCombination (i + 1) allCombinations))
      else allCombinations)"
  by pat_completeness auto
termination
  by (relation "measure (\<lambda>x. case x of
         Inl (t, _, _, s, _) \<Rightarrow> 2 * (length t - s) + 1
       | Inr (t, _, _, i, _) \<Rightarrow> 2 * (length t - i))") auto


text \<open>\<open>findAllValidCombinations\<close> (actions.go): the combinations of table cards that
  sum to 15 minus the thrown card's value.\<close>

definition findAllValidCombinations :: "Card \<Rightarrow> Card list \<Rightarrow> Card list list" where
  "findAllValidCombinations thrownCard tableCards =
     (let targetSum = 15; thrownValue = GetEscobaValue thrownCard in
      if thrownValue \<ge> targetSum then []
      else (let remainingSum = targetSum - thrownValue
            in findCombinationsDFS tableCards remainingSum [] 0 []))"


section \<open>Deck\<close>

text \<open>
  \<open>makeSpanishCards\<close> (deck.go) builds the cards suit by suit, skipping 8 and 9, and
  shuffles them with \<open>rand.Shuffle\<close>. Go's \<open>rand.Shuffle(n, swap)\<close> runs
  \<^verbatim>\<open>for i := n - 1; i > 0; i-- { j := rand.Intn(i + 1); swap(i, j) }\<close>.
  The random source is a parameter \<open>r\<close>: \<open>r i\<close> is the number the source yields at loop
  index \<open>i\<close>, reduced to the range of \<open>Intn(i + 1)\<close>. Every theorem below holds for
  every \<open>r\<close>.
\<close>

definition suits :: "string list" where
  "suits = [ORO, COPA, ESPADA, BASTO]"

definition ordered_cards :: "Card list" where
  "ordered_cards =
     concat (map (\<lambda>suit. map (mkCard suit) (filter (\<lambda>i. \<not> (i = 8 \<or> i = 9)) [1..12])) suits)"

definition swap_cards :: "nat \<Rightarrow> nat \<Rightarrow> Card list \<Rightarrow> Card list" where
  "swap_cards i j cards = cards[i := cards ! j, j := cards ! i]"

primrec shuffle_loop :: "(nat \<Rightarrow> nat) \<Rightarrow> nat \<Rightarrow> Card list \<Rightarrow> Card list" where
  "shuffle_loop r 0 cards = cards"
| "shuffle_loop r (Suc k) cards =
     shuffle_loop r k (swap_cards (Suc k) (r (Suc k) mod (Suc (Suc k))) cards)"

definition Shuffle :: "(nat \<Rightarrow> nat) \<Rightarrow> Card list \<Rightarrow> Card list" where
  "Shuffle r cards = shuffle_loop r (length cards - 1) cards"

definition makeSpanishCards :: "(nat \<Rightarrow> nat) \<Rightarrow> Card list" where
  "makeSpanishCards r = Shuffle r ordered_cards"

text \<open>\<open>type deck struct { cards []Card }\<close>: the model writes the deck as its card list.\<close>

definition newDeck :: "(nat \<Rightarrow> nat) \<Rightarrow> Card list" where
  "newDeck r = makeSpanishCards r"

text \<open>\<open>dealHand\<close>: three times, move the front card of the deck to the hand if there is
  one. The result is the hand and the deck that is left. \<open>Hand\<close> is a struct with the one
  field \<open>Cards\<close>; the model writes a hand as its card list.\<close>

type_synonym Hand = "Card list"

fun dealHand_loop :: "nat \<Rightarrow> Hand \<times> Card list \<Rightarrow> Hand \<times> Card list" where
  "dealHand_loop 0 (hand, cards) = (hand, cards)"
| "dealHand_loop (Suc n) (hand, cards) =
     dealHand_loop n (if length cards > 0 then (hand @ [hd cards], tl cards) else (hand, cards))"

definition dealHand :: "Card list \<Rightarrow> Hand \<times> Card list" where
  "dealHand cards = dealHand_loop 3 ([], cards)"

section \<open>Serialised values\<close>

text \<open>
  The engine stores actions as \<open>json.RawMessage\<close> and sends game states as JSON. The
  bytes are modelled by the JSON value they denote. Go's \<open>encoding/json\<close> writes a struct
  as an object with one member per exported field, under the name of the field's
  \<open>json\<close> tag and in the order of the fields; it skips a field tagged \<^verbatim>\<open>json:"-"\<close> and
  an unexported field; it writes a slice as an array, a map with integer keys as an object
  keyed by the decimal numbers, a nil pointer as \<open>null\<close>. Reading a struct, it takes each
  member it finds a field for, leaves a field with no member (or with \<open>null\<close>) at its zero
  value, and fails on a member of the wrong kind. Strings are taken to be valid UTF-8, as
  the suit names and the action name are.
\<close>

datatype json =
  JNull | JBool bool | JNum int | JStr string | JArr "json list" | JObj "(string \<times> json) list"

datatype decode_error = UnmarshalTypeError | UnknownActionType string

fun json_members :: "json \<Rightarrow> decode_error + (string \<times> json) list" where
  "json_members (JObj kvs) = Inr kvs"
| "json_members JNull = Inr []"
| "json_members _ = Inl UnmarshalTypeError"

fun as_string :: "json option \<Rightarrow> decode_error + string" where
  "as_string None = Inr []"
| "as_string (Some JNull) = Inr []"
| "as_string (Some (JStr s)) = Inr s"
| "as_string (Some _) = Inl UnmarshalTypeError"

fun as_int :: "json option \<Rightarrow> decode_error + int" where
  "as_int None = Inr 0"
| "as_int (Some JNull) = Inr 0"
| "as_int (Some (JNum n)) = Inr n"
| "as_int (Some _) = Inl UnmarshalTypeError"

fun as_bool :: "json option \<Rightarrow> decode_error + bool" where
  "as_bool None = Inr False"
| "as_bool (Some JNull) = Inr False"
| "as_bool (Some (JBool b)) = Inr b"
| "as_bool (Some _) = Inl UnmarshalTypeError"

text \<open>Sequencing of decoding steps: the first error ends the decoding.\<close>

definition dbind :: "decode_error + 'a \<Rightarrow> ('a \<Rightarrow> decode_error + 'b) \<Rightarrow> decode_error + 'b" where
  "dbind x f = (case x of Inl e \<Rightarrow> Inl e | Inr v \<Rightarrow> f v)"

fun dmap :: "('a \<Rightarrow> decode_error + 'b) \<Rightarrow> 'a list \<Rightarrow> decode_error + 'b list" where
  "dmap f [] = Inr []"
| "dmap f (x # xs) = dbind (f x) (\<lambda>y. dbind (dmap f xs) (\<lambda>ys. Inr (y # ys)))"

fun as_list :: "(json \<Rightarrow> decode_error + 'a) \<Rightarrow> json option \<Rightarrow> decode_error + 'a list" where
  "as_list f None = Inr []"
| "as_list f (Some JNull) = Inr []"
| "as_list f (Some (JArr js)) = dmap f js"
| "as_list f (Some _) = Inl UnmarshalTypeError"

definition marshalCard :: "Card \<Rightarrow> json" where
  "marshalCard c = JObj [(''suit'', JStr (Suit c)), (''number'', JNum (Number c))]"

definition unmarshalCard :: "json \<Rightarrow> decode_error + Card" where
  "unmarshalCard j =
     dbind (json_members j) (\<lambda>kvs.
     dbind (as_string (map_of kvs ''suit'')) (\<lambda>s.
     dbind (as_int (map_of kvs ''number'')) (\<lambda>n.
     Inr \<lparr>Suit = s, Number = n\<rparr>)))"

definition marshalCards :: "Card list \<Rightarrow> json" where
  "marshalCards cs = JArr (map marshalCard cs)"

section \<open>Actions\<close>

text \<open>
  \<open>ActionThrowCard\<close> (actions.go) embeds \<open>act\<close>, whose field is \<open>Name\<close>, and has the
  fields \<open>Card\<close> and \<open>CapturedTableCards\<close>; the model calls the thrown card
  \<open>ThrownCard\<close>. It is the only implementation of the \<open>Action\<close> interface.
\<close>

definition THROW_CARD :: string where "THROW_CARD = ''throw_card''"

record Action =
  Name :: string
  ThrownCard :: Card
  CapturedTableCards :: "Card list"

definition newActionThrowCard :: "Card \<Rightarrow> Card list \<Rightarrow> Action" where
  "newActionThrowCard c capturedTableCards =
     \<lparr>Name = THROW_CARD, ThrownCard = c, CapturedTableCards = capturedTableCards\<rparr>"

definition GetName :: "Action \<Rightarrow> string" where
  "GetName a = Name a"

definition SerializeAction :: "Action \<Rightarrow> json" where
  "SerializeAction action =
     JObj [(''name'', JStr (Name action)),
           (''card'', marshalCard (ThrownCard action)),
           (''capturedTableCards'', marshalCards (CapturedTableCards action))]"

definition unmarshalActionThrowCard :: "json \<Rightarrow> decode_error + Action" where
  "unmarshalActionThrowCard j =
     dbind (json_members j) (\<lambda>kvs.
     dbind (as_string (map_of kvs ''name'')) (\<lambda>n.
     dbind (case map_of kvs ''card'' of None \<Rightarrow> Inr \<lparr>Suit = [], Number = 0\<rparr>
            | Some JNull \<Rightarrow> Inr \<lparr>Suit = [], Number = 0\<rparr>
            | Some v \<Rightarrow> unmarshalCard v) (\<lambda>c.
     dbind (as_list unmarshalCard (map_of kvs ''capturedTableCards'')) (\<lambda>cs.
     Inr \<lparr>Name = n, ThrownCard = c, CapturedTableCards = cs\<rparr>))))"

text \<open>\<open>DeserializeAction\<close>: read the name, choose the action type by it, then read the
  whole value into that type.\<close>

definition DeserializeAction :: "json \<Rightarrow> decode_error + Action" where
  "DeserializeAction bs =
     dbind (json_members bs) (\<lambda>kvs.
     dbind (as_string (map_of kvs ''name'')) (\<lambda>actionName.
     if actionName = THROW_CARD then unmarshalActionThrowCard bs
     else Inl (UnknownActionType actionName)))"

definition serializeActions :: "Action list \<Rightarrow> json list" where
  "serializeActions as = map SerializeAction as"


section \<open>Game state\<close>

text \<open>
  \<open>GameState\<close> and \<open>SetResult\<close> (the state machine's file). A Go map from player ids
  is a function from \<open>int\<close>: reading a key that was never written gives the zero value
  (an empty pile, 0, false), as \<open>m[k]\<close> does in Go. \<open>Hands\<close> maps to pointers; \<open>New\<close>
  deals both hands before it returns, so no hand of a game is nil, and the model writes
  the pointer as the hand. \<open>LastSetResults\<close> is a pointer that is nil until a set was
  scored: an option. \<open>PossibleActions\<close> and \<open>Actions\<close> hold serialised actions.
\<close>

record SetResult =
  CardCounts :: "int \<Rightarrow> int"
  OroCardCounts :: "int \<Rightarrow> int"
  HasSieteDeOro :: "int \<Rightarrow> bool"
  SetentaScores :: "int \<Rightarrow> int"
  PointsAwarded :: "int \<Rightarrow> int"
  EscobasThisSet :: "int \<Rightarrow> int"

record GameState =
  RoundTurnPlayerID :: int
  RoundNumber :: int
  TurnPlayerID :: int
  Hands :: "int \<Rightarrow> Hand"
  TableCards :: "Card list"
  Piles :: "int \<Rightarrow> Card list"
  Escobas :: "int \<Rightarrow> int"
  Scores :: "int \<Rightarrow> int"
  PossibleActions :: "json list"
  RoundFinished :: bool
  SetFinished :: bool
  IsEnded :: bool
  WinnerPlayerID :: int
  Actions :: "json list"
  ActionOwnerPlayerIDs :: "int list"
  RoundJustStarted :: bool
  LastSetResults :: "SetResult option"
  LastCapturerPlayerID :: int
  SetJustStarted :: bool
  deck :: "Card list"

definition CurrentPlayerID :: "GameState \<Rightarrow> int" where
  "CurrentPlayerID g = TurnPlayerID g"

definition OpponentOf :: "int \<Rightarrow> int" where
  "OpponentOf playerID = (if playerID = 0 then 1 else 0)"

definition YieldsTurn :: "Action \<Rightarrow> GameState \<Rightarrow> bool" where
  "YieldsTurn a g = True"

section \<open>Legality and application of a throw\<close>

text \<open>The first loop of \<open>IsPossible\<close>: is the thrown card in the hand.\<close>

fun hasCard :: "Card \<Rightarrow> Card list \<Rightarrow> bool" where
  "hasCard a [] = False"
| "hasCard a (c # cs) = (if c = a then True else hasCard a cs)"

text \<open>The last loop of \<open>IsPossible\<close>: each captured card is looked for in a copy of the
  table, and taken out of the copy where it is first found.\<close>

fun find_remove :: "Card \<Rightarrow> Card list \<Rightarrow> Card list option" where
  "find_remove capturedCard [] = None"
| "find_remove capturedCard (tableCard # rest) =
     (if tableCard = capturedCard then Some rest
      else map_option (Cons tableCard) (find_remove capturedCard rest))"

fun all_on_table :: "Card list \<Rightarrow> Card list \<Rightarrow> bool" where
  "all_on_table [] tableCopy = True"
| "all_on_table (capturedCard # rest) tableCopy =
     (case find_remove capturedCard tableCopy of
        None \<Rightarrow> False
      | Some tableCopy' \<Rightarrow> all_on_table rest tableCopy')"

definition IsPossible :: "Action \<Rightarrow> GameState \<Rightarrow> bool" where
  "IsPossible a g =
     (if \<not> hasCard (ThrownCard a) (Hands g (TurnPlayerID g)) then False
      else if length (CapturedTableCards a) = 0
        then length (findAllValidCombinations (ThrownCard a) (TableCards g)) = 0
      else (let expectedSum = 15 - GetEscobaValue (ThrownCard a);
                actualSum = sumCards_from 0 (CapturedTableCards a)
            in if actualSum \<noteq> expectedSum then False
               else all_on_table (CapturedTableCards a) (TableCards g)))"

text \<open>
  \<open>removeCardsFromTable\<close> puts the table cards into a \<open>map[Card]struct{}\<close>, deletes the
  cards to remove and ranges over the map. The map is modelled by the list of its keys,
  without duplicates. Go leaves the order of a range over a map open: \<open>range_order m\<close>
  builds the order from a parameter \<open>m\<close>, placing each key at a position that \<open>m\<close>
  chooses; every theorem below holds for every \<open>m\<close>.
\<close>

fun range_order :: "(nat \<Rightarrow> nat) \<Rightarrow> 'a list \<Rightarrow> 'a list" where
  "range_order m [] = []"
| "range_order m (k # ks) =
     (let rest = range_order m ks; i = m (length ks) mod Suc (length rest)
      in take i rest @ k # drop i rest)"

definition removeCardsFromTable :: "(nat \<Rightarrow> nat) \<Rightarrow> Card list \<Rightarrow> Card list \<Rightarrow> Card list" where
  "removeCardsFromTable m tableCards toRemove =
     (let tableSet = fold List.insert tableCards [];
          tableSet' = fold removeAll toRemove tableSet
      in range_order m tableSet')"

text \<open>The first loop of \<open>Run\<close>: delete the first card of the hand equal to the thrown
  one.\<close>

fun delete_thrown :: "Card \<Rightarrow> Card list \<Rightarrow> Card list" where
  "delete_thrown a [] = []"
| "delete_thrown a (c # cs) = (if c = a then cs else c # delete_thrown a cs)"

datatype error = errActionNotPossible | errGameIsEnded

definition Run :: "(nat \<Rightarrow> nat) \<Rightarrow> Action \<Rightarrow> GameState \<Rightarrow> error option \<times> GameState" where
  "Run m a g =
     (let playerID = TurnPlayerID g;
          g1 = g\<lparr>Hands := (Hands g)(playerID := delete_thrown (ThrownCard a) (Hands g playerID))\<rparr>
      in if length (CapturedTableCards a) > 0 then
           (let cardsToCapture = CapturedTableCards a @ [ThrownCard a];
                g2 = g1\<lparr>Piles := (Piles g1)(playerID := Piles g1 playerID @ cardsToCapture)\<rparr>;
                g3 = g2\<lparr>TableCards := removeCardsFromTable m (TableCards g2) cardsToCapture\<rparr>;
                g4 = g3\<lparr>LastCapturerPlayerID := playerID\<rparr>
            in (None,
                if length (TableCards g4) = 0 \<and> length (CapturedTableCards a) > 0
                then g4\<lparr>Escobas := (Escobas g4)(playerID := Escobas g4 playerID + 1)\<rparr>
                else g4))
         else (None, g1\<lparr>TableCards := TableCards g1 @ [ThrownCard a]\<rparr>))"

section \<open>Enumeration of the legal actions\<close>

text \<open>The first loop of \<open>CalculatePossibleActions\<close>, over the hand: the actions found
  so far and the flag \<open>hasValidCombinations\<close>.\<close>

fun combination_actions :: "Card list \<Rightarrow> Card list \<Rightarrow> Action list \<times> bool \<Rightarrow> Action list \<times> bool" where
  "combination_actions tableCards [] (actions, hasValidCombinations) =
     (actions, hasValidCombinations)"
| "combination_actions tableCards (c # cs) (actions, hasValidCombinations) =
     (let validCombinations = findAllValidCombinations c tableCards
      in if length validCombinations > 0
         then combination_actions tableCards cs
                (actions @ map (newActionThrowCard c) validCombinations, True)
         else combination_actions tableCards cs (actions, hasValidCombinations))"

definition CalculatePossibleActions :: "GameState \<Rightarrow> Action list" where
  "CalculatePossibleActions g =
     (let hand = Hands g (TurnPlayerID g);
          (actions, hasValidCombinations) = combination_actions (TableCards g) hand ([], False)
      in if \<not> hasValidCombinations
         then actions @ map (\<lambda>c. newActionThrowCard c []) hand
         else actions)"


section \<open>Scoring\<close>

text \<open>
  \<open>calculateSetenta\<close> keeps two Go maps keyed by suit, \<open>suitBest\<close> and \<open>suitHasCard\<close>.
  They are modelled by association lists with distinct keys; a key that is absent reads as
  the zero value, and \<open>len\<close> is the number of keys.
\<close>

definition lookup_int :: "(string \<times> int) list \<Rightarrow> string \<Rightarrow> int" where
  "lookup_int al k = (case map_of al k of None \<Rightarrow> 0 | Some v \<Rightarrow> v)"

definition lookup_bool :: "(string \<times> bool) list \<Rightarrow> string \<Rightarrow> bool" where
  "lookup_bool al k = (case map_of al k of None \<Rightarrow> False | Some v \<Rightarrow> v)"

fun setenta_loop ::
  "Card list \<Rightarrow> (string \<times> int) list \<times> (string \<times> bool) list
     \<Rightarrow> (string \<times> int) list \<times> (string \<times> bool) list" where
  "setenta_loop [] (suitBest, suitHasCard) = (suitBest, suitHasCard)"
| "setenta_loop (c # cs) (suitBest, suitHasCard) =
     (let v = GetEscobaValue c
      in if v \<le> 7 then
           (if \<not> lookup_bool suitHasCard (Suit c) \<or> v > lookup_int suitBest (Suit c)
            then setenta_loop cs
                   (AList.update (Suit c) v suitBest, AList.update (Suit c) True suitHasCard)
            else setenta_loop cs (suitBest, suitHasCard))
         else setenta_loop cs (suitBest, suitHasCard))"

definition calculateSetenta :: "GameState \<Rightarrow> int \<Rightarrow> int" where
  "calculateSetenta g playerID =
     (let (suitBest, suitHasCard) = setenta_loop (Piles g playerID) ([], [])
      in if length suitHasCard < 4 then 0
         else fold (\<lambda>(suit, v) total. total + v) suitBest 0)"

text \<open>The inner loop of \<open>scoreSet\<close> over a pile: the count of oro cards and whether
  the 7 of oro was seen.\<close>

fun count_oro :: "Card list \<Rightarrow> int \<times> bool \<Rightarrow> int \<times> bool" where
  "count_oro [] (n, seven) = (n, seven)"
| "count_oro (c # cs) (n, seven) =
     (if Suit c = ORO then count_oro cs (n + 1, if Number c = 7 then True else seven)
      else count_oro cs (n, seven))"

text \<open>\<open>scoreSet\<close> up to the assignment of \<open>LastSetResults\<close>: the straight-line part
  before the test for the end of the game.\<close>

definition scoreSet_tally :: "GameState \<Rightarrow> GameState" where
  "scoreSet_tally g =
     (let result0 = \<lparr>CardCounts = (\<lambda>p. 0), OroCardCounts = (\<lambda>p. 0),
                     HasSieteDeOro = (\<lambda>p. False), SetentaScores = (\<lambda>p. 0),
                     PointsAwarded = (\<lambda>p. 0),
                     EscobasThisSet = (\<lambda>p. 0)(0 := Escobas g 0, 1 := Escobas g 1)\<rparr>;
          g1 = (if length (TableCards g) > 0
                then g\<lparr>Piles := (Piles g)(LastCapturerPlayerID g :=
                                    Piles g (LastCapturerPlayerID g) @ TableCards g),
                       TableCards := []\<rparr>
                else g);
          result1 = fold (\<lambda>playerID res.
                      (let (n, seven) = count_oro (Piles g1 playerID) (0, False)
                       in res\<lparr>CardCounts := (CardCounts res)(playerID := int (length (Piles g1 playerID))),
                              OroCardCounts := (OroCardCounts res)(playerID := n),
                              HasSieteDeOro := (HasSieteDeOro res)(playerID := seven),
                              SetentaScores := (SetentaScores res)(playerID := calculateSetenta g1 playerID)\<rparr>))
                    [0, 1] result0;
          result2 = fold (\<lambda>playerID res.
                      res\<lparr>PointsAwarded := (PointsAwarded res)(playerID :=
                             PointsAwarded res playerID + Escobas g1 playerID)\<rparr>)
                    [0, 1] result1;
          result3 = (if CardCounts result2 0 > CardCounts result2 1
                     then result2\<lparr>PointsAwarded := (PointsAwarded result2)(0 := PointsAwarded result2 0 + 1)\<rparr>
                     else if CardCounts result2 1 > CardCounts result2 0
                     then result2\<lparr>PointsAwarded := (PointsAwarded result2)(1 := PointsAwarded result2 1 + 1)\<rparr>
                     else result2);
          result4 = (if OroCardCounts result3 0 > OroCardCounts result3 1
                     then result3\<lparr>PointsAwarded := (PointsAwarded result3)(0 := PointsAwarded result3 0 + 1)\<rparr>
                     else if OroCardCounts result3 1 > OroCardCounts result3 0
                     then result3\<lparr>PointsAwarded := (PointsAwarded result3)(1 := PointsAwarded result3 1 + 1)\<rparr>
                     else result3);
          result5 = (if HasSieteDeOro result4 0
                     then result4\<lparr>PointsAwarded := (PointsAwarded result4)(0 := PointsAwarded result4 0 + 1)\<rparr>
                     else if HasSieteDeOro result4 1
                     then result4\<lparr>PointsAwarded := (PointsAwarded result4)(1 := PointsAwarded result4 1 + 1)\<rparr>
                     else result4);
          result6 = (if SetentaScores result5 0 > SetentaScores result5 1 \<and> SetentaScores result5 0 > 0
                     then result5\<lparr>PointsAwarded := (PointsAwarded result5)(0 := PointsAwarded result5 0 + 1)\<rparr>
                     else if SetentaScores result5 1 > SetentaScores result5 0 \<and> SetentaScores result5 1 > 0
                     then result5\<lparr>PointsAwarded := (PointsAwarded result5)(1 := PointsAwarded result5 1 + 1)\<rparr>
                     else result5);
          g2 = fold (\<lambda>playerID s.
                      s\<lparr>Scores := (Scores s)(playerID := Scores s playerID + PointsAwarded result6 playerID)\<rparr>)
                 [0, 1] g1
      in g2\<lparr>LastSetResults := Some result6\<rparr>)"

section \<open>Sets and rounds\<close>

text \<open>The loop of \<open>startNewRound\<close> that deals the table: four times, move the front
  card of the deck to the table if there is one.\<close>

fun deal_table :: "nat \<Rightarrow> GameState \<Rightarrow> GameState" where
  "deal_table 0 g = g"
| "deal_table (Suc n) g =
     deal_table n (if length (deck g) > 0
                   then g\<lparr>TableCards := TableCards g @ [hd (deck g)], deck := tl (deck g)\<rparr>
                   else g)"

text \<open>\<open>startNewRound\<close> from the point where the hands are dealt (the deck holds at
  least 6 cards) to its end.\<close>

definition deal_round :: "GameState \<Rightarrow> GameState" where
  "deal_round g =
     (let (hand0, cards1) = dealHand (deck g);
          (hand1, cards2) = dealHand cards1;
          g1 = g\<lparr>Hands := (Hands g)(0 := hand0, 1 := hand1), deck := cards2\<rparr>;
          g2 = (if RoundNumber g1 = 1 then
                  (let g' = deal_table 4 g1
                   in if sumCards (TableCards g') = 15
                      then g'\<lparr>Piles := (Piles g')(RoundTurnPlayerID g' :=
                                          Piles g' (RoundTurnPlayerID g') @ TableCards g'),
                              Escobas := (Escobas g')(RoundTurnPlayerID g' :=
                                          Escobas g' (RoundTurnPlayerID g') + 1),
                              LastCapturerPlayerID := RoundTurnPlayerID g',
                              TableCards := []\<rparr>
                      else g')
                else g1);
          g3 = g2\<lparr>RoundFinished := False\<rparr>
      in g3\<lparr>PossibleActions := serializeActions (CalculatePossibleActions g3)\<rparr>)"

text \<open>
  \<open>startNewSet\<close>, \<open>startNewRound\<close> and \<open>scoreSet\<close> call each other: a round that cannot
  be dealt scores the set, and a scored set that does not end the game starts the next set,
  with the other player as mano and a new deck. \<open>r\<close> is the random source of the shuffle.
\<close>

function startNewSet :: "(nat \<Rightarrow> nat) \<Rightarrow> GameState \<Rightarrow> GameState"
  and startNewRound :: "(nat \<Rightarrow> nat) \<Rightarrow> GameState \<Rightarrow> GameState"
  and scoreSet :: "(nat \<Rightarrow> nat) \<Rightarrow> GameState \<Rightarrow> GameState"
where
  "startNewSet r g =
     startNewRound r
       (g\<lparr>deck := newDeck r, TableCards := [], Piles := (\<lambda>p. []), Escobas := (\<lambda>p. 0),
          LastCapturerPlayerID := RoundTurnPlayerID g, RoundNumber := 0,
          SetFinished := False, SetJustStarted := True\<rparr>)"
| "startNewRound r g =
     (let g1 = g\<lparr>RoundJustStarted := True, RoundNumber := RoundNumber g + 1,
                 TurnPlayerID := RoundTurnPlayerID g\<rparr>
      in if length (deck g1) \<ge> 6 then deal_round g1
         else scoreSet r (g1\<lparr>SetFinished := True\<rparr>))"
| "scoreSet r g =
     (let g1 = scoreSet_tally g
      in if Scores g1 0 \<ge> 15 \<or> Scores g1 1 \<ge> 15 then
           (let g2 = g1\<lparr>IsEnded := True\<rparr>
            in if Scores g2 0 > Scores g2 1 then g2\<lparr>WinnerPlayerID := 0\<rparr>
               else if Scores g2 1 > Scores g2 0 then g2\<lparr>WinnerPlayerID := 1\<rparr>
               else g2\<lparr>WinnerPlayerID := - 1\<rparr>)
         else startNewSet r (g1\<lparr>RoundTurnPlayerID := OpponentOf (RoundTurnPlayerID g1)\<rparr>))"
  by pat_completeness auto
termination
proof -
  have len_swap: "\<And>i j cs. length (swap_cards i j cs) = length cs"
    by (simp add: swap_cards_def)
  have len_loop: "\<And>r k cs. length (shuffle_loop r k cs) = length cs"
  proof -
    fix r k cs show "length (shuffle_loop r k cs) = length cs"
      by (induction k arbitrary: cs) (simp_all add: len_swap)
  qed
  have "length ordered_cards = 40"
    by (simp add: ordered_cards_def suits_def upto.simps)
  then have len_deck: "\<And>r. length (newDeck r) = 40"
    by (simp add: newDeck_def makeSpanishCards_def Shuffle_def len_loop)
  show ?thesis
    by (relation "measure (\<lambda>x. case x of
           Inl (r, g) \<Rightarrow> 1
         | Inr (Inl (r, g)) \<Rightarrow> (if length (deck g) \<ge> 6 then 0 else 3)
         | Inr (Inr (r, g)) \<Rightarrow> 2)") (auto simp: len_deck)
qed

declare startNewSet.simps [simp del] startNewRound.simps [simp del] scoreSet.simps [simp del]
declare findCombinationsDFS.simps [simp del] dfs_loop.simps [simp del]

section \<open>The constructor and the submission of an action\<close>

text \<open>\<open>New\<close>: the initial struct, then the caller's options, then the first set. \<open>r0\<close>
  is the random source of the deck of the struct literal, which \<open>startNewSet\<close> replaces.\<close>

definition New :: "(nat \<Rightarrow> nat) \<Rightarrow> (nat \<Rightarrow> nat) \<Rightarrow> (GameState \<Rightarrow> GameState) list \<Rightarrow> GameState" where
  "New r0 r opts =
     (let gs = \<lparr>RoundTurnPlayerID = 0, RoundNumber = 0, TurnPlayerID = 0,
                Hands = (\<lambda>p. []), TableCards = [], Piles = (\<lambda>p. []),
                Escobas = (\<lambda>p. 0), Scores = (\<lambda>p. 0), PossibleActions = [],
                RoundFinished = False, SetFinished = False, IsEnded = False,
                WinnerPlayerID = - 1, Actions = [], ActionOwnerPlayerIDs = [],
                RoundJustStarted = False, LastSetResults = None,
                LastCapturerPlayerID = 0, SetJustStarted = False, deck = newDeck r0\<rparr>
      in startNewSet r (fold (\<lambda>opt gs'. opt gs') opts gs))"

text \<open>\<open>RunAction\<close> returns the error, if any, and the state it leaves.\<close>

definition RunAction ::
  "(nat \<Rightarrow> nat) \<Rightarrow> (nat \<Rightarrow> nat) \<Rightarrow> Action \<Rightarrow> GameState \<Rightarrow> error option \<times> GameState" where
  "RunAction r m action g =
     (if IsEnded g then (Some errGameIsEnded, g)
      else if \<not> IsPossible action g then (Some errActionNotPossible, g)
      else (case Run m action g of
              (Some err, g1) \<Rightarrow> (Some err, g1)
            | (None, g1) \<Rightarrow>
               (let g2 = g1\<lparr>RoundJustStarted := False, SetJustStarted := False\<rparr>;
                    bs = SerializeAction action;
                    g3 = g2\<lparr>Actions := Actions g2 @ [bs]\<rparr>;
                    g4 = g3\<lparr>ActionOwnerPlayerIDs := ActionOwnerPlayerIDs g3 @ [CurrentPlayerID g3]\<rparr>;
                    g5 = (if length (Hands g4 0) = 0 \<and> length (Hands g4 1) = 0
                          then g4\<lparr>RoundFinished := True\<rparr> else g4)
                in if \<not> IsEnded g5 \<and> RoundFinished g5 \<and> \<not> SetFinished g5
                   then (None, startNewRound r g5)
                   else if SetFinished g5 then (None, g5)
                   else (let g6 = (if \<not> IsEnded g5 \<and> \<not> RoundFinished g5 \<and> YieldsTurn action g5
                                   then g5\<lparr>TurnPlayerID := OpponentOf (TurnPlayerID g5)\<rparr>
                                   else g5)
                         in (None, g6\<lparr>PossibleActions :=
                                        serializeActions (CalculatePossibleActions g6)\<rparr>)))))"

text \<open>The states a game can be in: the constructor's, called with no option as every call
  in the repository is, and those that \<open>RunAction\<close> leaves, whatever the action submitted
  and whatever the random choices.\<close>

inductive reachable :: "GameState \<Rightarrow> bool" where
  reachable_New: "reachable (New r0 r [])"
| reachable_RunAction: "reachable g \<Longrightarrow> reachable (snd (RunAction r m action g))"


section \<open>States of the tests\<close>

text \<open>The repository's tests build their states by setting the hands, the table and
  the turn on a state of round 1 (\<open>TestCalculatePossibleActionsWithCombinations\<close> and
  others). \<open>test_state\<close> is such a state, with empty piles and no score.\<close>

definition test_state :: "int \<Rightarrow> Card list \<Rightarrow> Card list \<Rightarrow> Card list \<Rightarrow> Card list \<Rightarrow> GameState" where
  "test_state turn hand0 hand1 tableCards cards =
     \<lparr>RoundTurnPlayerID = 0, RoundNumber = 1, TurnPlayerID = turn,
      Hands = (\<lambda>p. [])(0 := hand0, 1 := hand1), TableCards = tableCards,
      Piles = (\<lambda>p. []), Escobas = (\<lambda>p. 0), Scores = (\<lambda>p. 0), PossibleActions = [],
      RoundFinished = False, SetFinished = False, IsEnded = False,
      WinnerPlayerID = - 1, Actions = [], ActionOwnerPlayerIDs = [],
      RoundJustStarted = False, LastSetResults = None,
      LastCapturerPlayerID = 0, SetJustStarted = False, deck = cards\<rparr>"

section \<open>Notions of the specification\<close>

text \<open>The sum of the capture values of some cards, as the specification speaks of it.\<close>

definition capture_sum :: "Card list \<Rightarrow> int" where
  "capture_sum cs = sum_list (map GetEscobaValue cs)"

section \<open>The combination search finds the subsets that sum to the target\<close>

lemma sumCards_from_eq: "sumCards_from s cs = s + capture_sum cs"
  by (induction cs arbitrary: s) (auto simp: capture_sum_def)

lemma sumCards_eq: "sumCards cs = capture_sum cs"
  by (simp add: sumCards_def sumCards_from_eq)

lemma capture_sum_Cons [simp]: "capture_sum (c # cs) = GetEscobaValue c + capture_sum cs"
  by (simp add: capture_sum_def)

lemma capture_sum_Nil [simp]: "capture_sum [] = 0"
  by (simp add: capture_sum_def)

lemma capture_sum_append [simp]: "capture_sum (xs @ ys) = capture_sum xs + capture_sum ys"
  by (simp add: capture_sum_def)

lemma capture_sum_subseqs_nonneg:
  "\<forall>c\<in>set xs. 0 < GetEscobaValue c \<Longrightarrow> s \<in> set (subseqs xs) \<Longrightarrow> 0 \<le> capture_sum s"
  by (induction xs arbitrary: s) (auto simp: Let_def)

lemma filter_subseqs_zero:
  "\<forall>c\<in>set xs. 0 < GetEscobaValue c \<Longrightarrow> filter (\<lambda>s. capture_sum s = 0) (subseqs xs) = [[]]"
proof (induction xs)
  case Nil
  then show ?case by simp
next
  case (Cons x xs)
  have "filter (\<lambda>s. capture_sum (x # s) = 0) (subseqs xs) = []"
  proof -
    have "\<forall>s\<in>set (subseqs xs). capture_sum (x # s) \<noteq> 0"
      using Cons.prems capture_sum_subseqs_nonneg[of xs] by fastforce
    then show ?thesis by (simp add: filter_empty_conv)
  qed
  with Cons show ?case by (simp add: Let_def filter_map o_def)
qed

lemma filter_subseqs_neg:
  "\<forall>c\<in>set xs. 0 < GetEscobaValue c \<Longrightarrow> tg < 0 \<Longrightarrow>
     filter (\<lambda>s. capture_sum s = tg) (subseqs xs) = []"
  using capture_sum_subseqs_nonneg[of xs] by (fastforce simp: filter_empty_conv)

text \<open>The search from index \<open>s\<close> adds, after the combinations found so far, the
  subsequences of the table from \<open>s\<close> on that sum to the target, each behind the cards
  already chosen.\<close>

lemma findCombinationsDFS_subseqs:
  "(\<forall>c\<in>set t. 0 < GetEscobaValue c) \<Longrightarrow>
     findCombinationsDFS t tg cur s acc =
       acc @ map ((@) cur) (filter (\<lambda>x. capture_sum x = tg) (subseqs (drop s t)))"
  "(\<forall>c\<in>set t. 0 < GetEscobaValue c) \<Longrightarrow> tg \<noteq> 0 \<Longrightarrow>
     dfs_loop t tg cur i acc =
       acc @ map ((@) cur) (filter (\<lambda>x. capture_sum x = tg) (subseqs (drop i t)))"
proof (induction t tg cur s acc and t tg cur i acc rule: findCombinationsDFS_dfs_loop.induct)
  case (1 t tg cur s acc)
  have pos': "\<forall>c\<in>set (drop s t). 0 < GetEscobaValue c"
    using 1(2) by (meson in_set_dropD)
  show ?case
  proof (cases "tg = 0")
    case True
    then show ?thesis using filter_subseqs_zero[OF pos']
      by (subst findCombinationsDFS.simps) simp
  next
    case nz: False
    show ?thesis
    proof (cases "tg < 0 \<or> length t \<le> s")
      case True
      then show ?thesis using nz filter_subseqs_neg[OF pos']
        by (subst findCombinationsDFS.simps) auto
    next
      case False
      then show ?thesis using nz 1
        by (subst findCombinationsDFS.simps) simp
    qed
  qed
next
  case (2 t tg cur i acc)
  show ?case
  proof (cases "i < length t")
    case True
    have d: "drop i t = t ! i # drop (Suc i) t"
      using True by (simp add: Cons_nth_drop_Suc)
    have e: "\<And>x. (GetEscobaValue (t ! i) + x = tg) = (x = tg - GetEscobaValue (t ! i))"
      by auto
    show ?thesis
      using True 2 by (subst dfs_loop.simps) (simp add: d Let_def filter_map o_def e)
  next
    case False
    then show ?thesis using 2 by (subst dfs_loop.simps) simp
  qed
qed

lemma append_Nil_fun: "(@) [] = (\<lambda>x. x)"
  by (rule ext) simp

lemma findAllValidCombinations_filter:
  "(\<forall>c\<in>set tableCards. 0 < GetEscobaValue c) \<Longrightarrow>
     findAllValidCombinations thrownCard tableCards =
       (if 15 - GetEscobaValue thrownCard \<le> 0 then []
        else filter (\<lambda>s. capture_sum s = 15 - GetEscobaValue thrownCard) (subseqs tableCards))"
  by (simp add: findAllValidCombinations_def Let_def findCombinationsDFS_subseqs(1) append_Nil_fun)

text \<open>
  Claim C5. Whatever the thrown card, and for every list of table cards of positive
  capture value (every card of the deck has one), the combination search returns the
  subsequences of the table, each table position used at most once, whose capture values
  sum to 15 minus the thrown card's value, and nothing when that target is 0 or less.
  \<open>subseqs\<close> lists the sub-lists of the table by position, so two equal cards at two
  positions give two combinations. A 7 thrown at the table 3, 5, 10 (values 3, 5, 8)
  finds the two combinations 3 with 5, and 10.
\<close>

theorem findAllValidCombinations_exact:
  "((\<forall>c\<in>set tableCards. 0 < GetEscobaValue c) \<longrightarrow>
      findAllValidCombinations thrownCard tableCards =
        (if 15 - GetEscobaValue thrownCard \<le> 0 then []
         else filter (\<lambda>s. capture_sum s = 15 - GetEscobaValue thrownCard) (subseqs tableCards)))
   \<and> findAllValidCombinations (mkCard ORO 7) [mkCard ESPADA 3, mkCard BASTO 5, mkCard ORO 10]
       = [[mkCard ESPADA 3, mkCard BASTO 5], [mkCard ORO 10]]"
proof
  show "(\<forall>c\<in>set tableCards. 0 < GetEscobaValue c) \<longrightarrow>
      findAllValidCombinations thrownCard tableCards =
        (if 15 - GetEscobaValue thrownCard \<le> 0 then []
         else filter (\<lambda>s. capture_sum s = 15 - GetEscobaValue thrownCard) (subseqs tableCards))"
    using findAllValidCombinations_filter by blast
next
  show "findAllValidCombinations (mkCard ORO 7) [mkCard ESPADA 3, mkCard BASTO 5, mkCard ORO 10]
       = [[mkCard ESPADA 3, mkCard BASTO 5], [mkCard ORO 10]]"
    by code_simp
qed

theorem findAllValidCombinations_exact_witness:
  "findAllValidCombinations (mkCard COPA 5)
      [mkCard ESPADA 3, mkCard BASTO 7, mkCard ORO 12, mkCard COPA 3]
    = [[mkCard ESPADA 3, mkCard BASTO 7], [mkCard BASTO 7, mkCard COPA 3], [mkCard ORO 12]]"
proof -
  have pos: "\<forall>c\<in>set [mkCard ESPADA 3, mkCard BASTO 7, mkCard ORO 12, mkCard COPA 3].
               0 < GetEscobaValue c"
    by (simp add: mkCard_def GetEscobaValue_def)
  have rhs: "(if 15 - GetEscobaValue (mkCard COPA 5) \<le> 0 then []
         else filter (\<lambda>s. capture_sum s = 15 - GetEscobaValue (mkCard COPA 5))
                (subseqs [mkCard ESPADA 3, mkCard BASTO 7, mkCard ORO 12, mkCard COPA 3]))
        = [[mkCard ESPADA 3, mkCard BASTO 7], [mkCard BASTO 7, mkCard COPA 3], [mkCard ORO 12]]"
    by code_simp
  have "findAllValidCombinations (mkCard COPA 5)
          [mkCard ESPADA 3, mkCard BASTO 7, mkCard ORO 12, mkCard COPA 3] =
        (if 15 - GetEscobaValue (mkCard COPA 5) \<le> 0 then []
         else filter (\<lambda>s. capture_sum s = 15 - GetEscobaValue (mkCard COPA 5))
                (subseqs [mkCard ESPADA 3, mkCard BASTO 7, mkCard ORO 12, mkCard COPA 3]))"
    using findAllValidCombinations_exact[of "[mkCard ESPADA 3, mkCard BASTO 7, mkCard ORO 12, mkCard COPA 3]"
        "mkCard COPA 5"] pos by blast
  then show ?thesis
    by (simp only: rhs)
qed


section \<open>Legality of a throw\<close>

lemma hasCard_iff: "hasCard a cs \<longleftrightarrow> a \<in> set cs"
  by (induction cs) auto

lemma find_remove_eq:
  "find_remove c t = (if c \<in> set t then Some (remove1 c t) else None)"
  by (induction t) auto

lemma all_on_table_iff: "all_on_table cs t \<longleftrightarrow> mset cs \<subseteq># mset t"
proof (induction cs arbitrary: t)
  case Nil
  then show ?case by simp
next
  case (Cons c cs)
  show ?case
  proof (cases "c \<in> set t")
    case True
    then show ?thesis
      using Cons[of "remove1 c t"]
      by (simp add: find_remove_eq insert_subset_eq_iff)
  next
    case False
    then have "\<not> add_mset c (mset cs) \<subseteq># mset t"
      by (metis in_multiset_in_set mset_subset_eqD union_single_eq_member)
    with False show ?thesis by (simp add: find_remove_eq)
  qed
qed

text \<open>
  Claim C2. A throw is possible exactly when the hand of the player to move holds the
  thrown card and, if no capture is declared, the combination search for that card on the
  table finds nothing, or else, if a capture is declared, the capture values of the declared
  cards sum to 15 minus the thrown card's value and the declared cards form a sub-multiset
  of the table: each declared card uses up a table card of its own.
\<close>

theorem IsPossible_iff:
  "IsPossible a g \<longleftrightarrow>
     ThrownCard a \<in> set (Hands g (TurnPlayerID g)) \<and>
     (if CapturedTableCards a = []
      then findAllValidCombinations (ThrownCard a) (TableCards g) = []
      else capture_sum (CapturedTableCards a) = 15 - GetEscobaValue (ThrownCard a) \<and>
           mset (CapturedTableCards a) \<subseteq># mset (TableCards g))"
  by (simp add: IsPossible_def hasCard_iff all_on_table_iff sumCards_from_eq Let_def)


section \<open>Application of a throw\<close>

lemma delete_thrown_eq: "delete_thrown a cs = remove1 a cs"
  by (induction cs) auto

lemma mset_range_order [simp]: "mset (range_order m ks) = mset ks"
proof (induction ks)
  case Nil
  then show ?case by simp
next
  case (Cons k ks)
  have td: "\<And>i (r :: 'a list). mset (take i r) + mset (drop i r) = mset r"
    by (metis append_take_drop_id mset_append)
  show ?case using Cons by (simp add: Let_def td)
qed

lemma set_range_order [simp]: "set (range_order m ks) = set ks"
  by (metis mset_range_order set_mset_mset)

lemma distinct_range_order [simp]: "distinct (range_order m ks) = distinct ks"
  by (rule mset_eq_imp_distinct_iff) simp

lemma set_fold_insert: "set (fold List.insert xs acc) = set xs \<union> set acc"
  by (induction xs arbitrary: acc) auto

lemma distinct_fold_insert: "distinct acc \<Longrightarrow> distinct (fold List.insert xs acc)"
  by (induction xs arbitrary: acc) auto

lemma set_fold_removeAll: "set (fold removeAll rs s) = set s - set rs"
  by (induction rs arbitrary: s) auto

lemma distinct_fold_removeAll: "distinct s \<Longrightarrow> distinct (fold removeAll rs s)"
  by (induction rs arbitrary: s) (auto simp: distinct_removeAll)

lemma set_removeCardsFromTable:
  "set (removeCardsFromTable m t rs) = set t - set rs"
  by (simp add: removeCardsFromTable_def Let_def set_fold_removeAll set_fold_insert)

lemma distinct_removeCardsFromTable: "distinct (removeCardsFromTable m t rs)"
  by (simp add: removeCardsFromTable_def Let_def distinct_fold_removeAll distinct_fold_insert)

lemma mset_diff_distinct:
  assumes "distinct t" "mset cs \<subseteq># mset t" "distinct t'" "set t' = set t - set cs"
  shows "mset t' = mset t - mset cs"
proof (rule multiset_eqI)
  fix x
  have c1: "count (mset t) x = (if x \<in> set t then 1 else 0)"
    using assms(1) by (simp add: distinct_count_atmost_1)
  have c2: "count (mset t') x = (if x \<in> set t' then 1 else 0)"
    using assms(3) by (simp add: distinct_count_atmost_1)
  have le: "count (mset cs) x \<le> count (mset t) x"
    using assms(2) by (simp add: mset_subset_eq_count)
  show "count (mset t') x = count (mset t - mset cs) x"
  proof (cases "x \<in> set cs")
    case True
    then have "count (mset cs) x \<ge> 1"
      using count_mset_0_iff[of cs x] by linarith
    moreover have "x \<notin> set t'" using True assms(4) by simp
    ultimately show ?thesis using c1 c2 le by (simp split: if_splits)
  next
    case False
    then have z: "count (mset cs) x = 0" by simp
    have d: "count (mset t - mset cs) x = count (mset t) x"
      by (simp only: count_diff z diff_zero)
    have "x \<in> set t' \<longleftrightarrow> x \<in> set t" using False assms(4) by simp
    then show ?thesis using c1 c2 d by simp
  qed
qed

lemma mset_removeCardsFromTable:
  assumes "distinct t" "mset cs \<subseteq># mset t" "a \<notin> set t"
  shows "mset (removeCardsFromTable m t (cs @ [a])) = mset t - mset cs"
proof -
  have "set (removeCardsFromTable m t (cs @ [a])) = set t - set cs"
    using assms(3) by (auto simp: set_removeCardsFromTable)
  then show ?thesis
    using mset_diff_distinct[OF assms(1,2) distinct_removeCardsFromTable] by blast
qed


lemma Run_discard:
  "CapturedTableCards a = [] \<Longrightarrow>
     Run m a g = (None, g\<lparr>Hands := (Hands g)(TurnPlayerID g :=
                               remove1 (ThrownCard a) (Hands g (TurnPlayerID g))),
                         TableCards := TableCards g @ [ThrownCard a]\<rparr>)"
  by (simp add: Run_def Let_def delete_thrown_eq)

lemma Run_capture:
  "CapturedTableCards a \<noteq> [] \<Longrightarrow>
     Run m a g =
       (let p = TurnPlayerID g;
            t' = removeCardsFromTable m (TableCards g) (CapturedTableCards a @ [ThrownCard a])
        in (None, g\<lparr>Hands := (Hands g)(p := remove1 (ThrownCard a) (Hands g p)),
                     Piles := (Piles g)(p := Piles g p @ CapturedTableCards a @ [ThrownCard a]),
                     TableCards := t',
                     LastCapturerPlayerID := p,
                     Escobas := (if t' = [] then (Escobas g)(p := Escobas g p + 1) else Escobas g)\<rparr>))"
  by (simp add: Run_def Let_def delete_thrown_eq)


text \<open>
  Claim C3. In a state whose table holds no card twice and not the thrown card (all 40
  cards of a game are different), running a possible throw takes the thrown card out of
  the mover's hand. With a capture declared it appends the captured cards and then the
  thrown card to the mover's pile, leaves on the table the table cards minus the captured
  ones and never the thrown card, records the mover as last capturer, and adds one escoba
  for the mover exactly when the table is left empty, the table having held a card before.
  With no capture it appends the thrown card to the table and changes no pile, no escoba
  count and not the last capturer.
\<close>

theorem Run_effects:
  assumes "IsPossible a g" and "distinct (TableCards g)" and "ThrownCard a \<notin> set (TableCards g)"
  shows "fst (Run m a g) = None \<and>
     (let p = TurnPlayerID g; g' = snd (Run m a g) in
       Hands g' p = remove1 (ThrownCard a) (Hands g p) \<and>
       ThrownCard a \<in> set (Hands g p) \<and>
       (if CapturedTableCards a \<noteq> [] then
          Piles g' p = Piles g p @ CapturedTableCards a @ [ThrownCard a] \<and>
          mset (TableCards g') = mset (TableCards g) - mset (CapturedTableCards a) \<and>
          ThrownCard a \<notin> set (TableCards g') \<and>
          LastCapturerPlayerID g' = p \<and>
          (Escobas g' p = Escobas g p + 1 \<longleftrightarrow> TableCards g' = [] \<and> TableCards g \<noteq> []) \<and>
          (Escobas g' p = Escobas g p + 1 \<or> Escobas g' = Escobas g)
        else
          TableCards g' = TableCards g @ [ThrownCard a] \<and>
          Piles g' = Piles g \<and> Escobas g' = Escobas g \<and>
          LastCapturerPlayerID g' = LastCapturerPlayerID g))"
proof -
  have hand: "ThrownCard a \<in> set (Hands g (TurnPlayerID g))"
    using assms(1) by (simp add: IsPossible_iff)
  show ?thesis
  proof (cases "CapturedTableCards a = []")
    case True
    then show ?thesis using hand
      by (simp add: Run_discard Let_def)
  next
    case False
    define t' where "t' = removeCardsFromTable m (TableCards g) (CapturedTableCards a @ [ThrownCard a])"
    have sub: "mset (CapturedTableCards a) \<subseteq># mset (TableCards g)"
      using assms(1) False by (simp add: IsPossible_iff)
    have ne: "TableCards g \<noteq> []"
      using sub False by auto
    have m: "mset t' = mset (TableCards g) - mset (CapturedTableCards a)"
      unfolding t'_def by (rule mset_removeCardsFromTable[OF assms(2) sub assms(3)])
    have nin: "ThrownCard a \<notin> set t'"
      by (simp add: t'_def set_removeCardsFromTable)
    show ?thesis
      using False hand ne m nin
      by (simp add: Run_capture Let_def t'_def[symmetric])
  qed
qed


theorem Run_effects_witness:
  "(let a = newActionThrowCard (mkCard ORO 7) [mkCard ESPADA 3, mkCard BASTO 5];
        g = test_state 0 [mkCard ORO 7, mkCard COPA 2] [mkCard COPA 1]
              [mkCard ESPADA 3, mkCard BASTO 5, mkCard ORO 10] [];
        g' = snd (Run (\<lambda>i. 0) a g)
    in IsPossible a g \<and> Hands g' 0 = [mkCard COPA 2] \<and>
       Piles g' 0 = [mkCard ESPADA 3, mkCard BASTO 5, mkCard ORO 7] \<and>
       TableCards g' = [mkCard ORO 10] \<and> Escobas g' 0 = 0 \<and> LastCapturerPlayerID g' = 0)"
proof -
  define a where "a = newActionThrowCard (mkCard ORO 7) [mkCard ESPADA 3, mkCard BASTO 5]"
  define g where "g = test_state 0 [mkCard ORO 7, mkCard COPA 2] [mkCard COPA 1]
              [mkCard ESPADA 3, mkCard BASTO 5, mkCard ORO 10] []"
  have p: "IsPossible a g"
    unfolding a_def g_def by code_simp
  have d: "distinct (TableCards g)"
    unfolding g_def by code_simp
  have n: "ThrownCard a \<notin> set (TableCards g)"
    unfolding a_def g_def by code_simp
  have t: "TableCards (snd (Run (\<lambda>i. 0) a g)) = [mkCard ORO 10]"
    unfolding a_def g_def by code_simp
  have tp: "TurnPlayerID g = 0" and h0: "Hands g 0 = [mkCard ORO 7, mkCard COPA 2]"
    and pi: "Piles g 0 = []" and es: "Escobas g = (\<lambda>p. 0)"
    by (simp_all add: g_def test_state_def)
  have ca: "CapturedTableCards a = [mkCard ESPADA 3, mkCard BASTO 5]"
    and th: "ThrownCard a = mkCard ORO 7"
    by (simp_all add: a_def newActionThrowCard_def)
  have "Hands (snd (Run (\<lambda>i. 0) a g)) 0 = [mkCard COPA 2] \<and>
        Piles (snd (Run (\<lambda>i. 0) a g)) 0 = [mkCard ESPADA 3, mkCard BASTO 5, mkCard ORO 7] \<and>
        Escobas (snd (Run (\<lambda>i. 0) a g)) 0 = 0 \<and>
        LastCapturerPlayerID (snd (Run (\<lambda>i. 0) a g)) = 0"
    using Run_effects[OF p d n, of "\<lambda>i. 0"] t
    by (auto simp: Let_def tp h0 pi es ca th)
  then show ?thesis
    using p t by (simp add: Let_def a_def[symmetric] g_def[symmetric])
qed

end
